theory Spec2Isabelle
  imports Complex_Main
begin

section \<open>Numbers of the source language\<close>

text \<open>
  The physics module computes on JavaScript numbers. The model keeps the four kinds of
  value that decide the control flow of the code: a finite value, the two infinities and
  NaN. Finite values are real numbers and finite arithmetic is exact: rounding, overflow
  and underflow of the 64-bit format are not modelled. Zero is unsigned (there is no
  \<open>-0\<close>): the model reads every zero divisor as \<open>+0\<close>, which is what \<open>Math.abs\<close>
  returns and what the difference of two equal nonzero finite values is.

  Because of this the general statements below are kept to what does not depend on the
  arithmetic being exact: they state the rule the code follows (which branch is taken,
  when a loop stops, what is pushed), orderings that rounding to nearest preserves, and
  the propagation of NaN and the infinities. They do not state that a finite input gives
  a finite result, that adding a positive step increases a value, or that the
  prediction loop ends. Exact values appear only in examples on concrete inputs.
\<close>

datatype number = Fin real | PInf | NInf | NaN

fun isFinite :: "number \<Rightarrow> bool" where
  "isFinite (Fin a) = True"
| "isFinite _ = False"

fun num_neg :: "number \<Rightarrow> number" where
  "num_neg (Fin a) = Fin (- a)"
| "num_neg PInf = NInf"
| "num_neg NInf = PInf"
| "num_neg NaN = NaN"

fun num_abs :: "number \<Rightarrow> number" where
  "num_abs (Fin a) = Fin \<bar>a\<bar>"
| "num_abs PInf = PInf"
| "num_abs NInf = PInf"
| "num_abs NaN = NaN"

fun num_add :: "number \<Rightarrow> number \<Rightarrow> number" where
  "num_add (Fin a) (Fin b) = Fin (a + b)"
| "num_add NaN b = NaN"
| "num_add a NaN = NaN"
| "num_add PInf NInf = NaN"
| "num_add NInf PInf = NaN"
| "num_add PInf b = PInf"
| "num_add a PInf = PInf"
| "num_add NInf b = NInf"
| "num_add a NInf = NInf"

fun inf_signed :: "bool \<Rightarrow> number" where
  "inf_signed True = PInf"
| "inf_signed False = NInf"

fun num_mul :: "number \<Rightarrow> number \<Rightarrow> number" where
  "num_mul (Fin a) (Fin b) = Fin (a * b)"
| "num_mul NaN b = NaN"
| "num_mul a NaN = NaN"
| "num_mul (Fin a) PInf = (if a = 0 then NaN else inf_signed (0 < a))"
| "num_mul (Fin a) NInf = (if a = 0 then NaN else inf_signed (a < 0))"
| "num_mul PInf (Fin b) = (if b = 0 then NaN else inf_signed (0 < b))"
| "num_mul NInf (Fin b) = (if b = 0 then NaN else inf_signed (b < 0))"
| "num_mul PInf PInf = PInf"
| "num_mul PInf NInf = NInf"
| "num_mul NInf PInf = NInf"
| "num_mul NInf NInf = PInf"

fun num_div :: "number \<Rightarrow> number \<Rightarrow> number" where
  "num_div (Fin a) (Fin b) =
     (if b = 0 then (if a = 0 then NaN else inf_signed (0 < a)) else Fin (a / b))"
| "num_div NaN b = NaN"
| "num_div a NaN = NaN"
| "num_div (Fin a) PInf = Fin 0"
| "num_div (Fin a) NInf = Fin 0"
| "num_div PInf (Fin b) = inf_signed (0 \<le> b)"
| "num_div NInf (Fin b) = inf_signed (b < 0)"
| "num_div PInf PInf = NaN"
| "num_div PInf NInf = NaN"
| "num_div NInf PInf = NaN"
| "num_div NInf NInf = NaN"

fun num_less :: "number \<Rightarrow> number \<Rightarrow> bool" where
  "num_less (Fin a) (Fin b) = (a < b)"
| "num_less (Fin a) PInf = True"
| "num_less NInf (Fin b) = True"
| "num_less NInf PInf = True"
| "num_less a b = False"

fun num_le :: "number \<Rightarrow> number \<Rightarrow> bool" where
  "num_le (Fin a) (Fin b) = (a \<le> b)"
| "num_le (Fin a) PInf = True"
| "num_le NInf (Fin b) = True"
| "num_le NInf PInf = True"
| "num_le PInf PInf = True"
| "num_le NInf NInf = True"
| "num_le a b = False"

text \<open>
  The operators of the source are written with the usual symbols. Every comparison with
  NaN is false, so \<open>\<le>\<close> on numbers is not reflexive and \<open>\<not> a < b\<close> is not \<open>b \<le> a\<close>.
\<close>

instantiation number :: "{plus, minus, uminus, times, inverse, abs, ord}"
begin

definition plus_number :: "number \<Rightarrow> number \<Rightarrow> number" where
  "plus_number a b = num_add a b"

definition uminus_number :: "number \<Rightarrow> number" where
  "uminus_number a = num_neg a"

definition minus_number :: "number \<Rightarrow> number \<Rightarrow> number" where
  "minus_number a b = num_add a (num_neg b)"

definition times_number :: "number \<Rightarrow> number \<Rightarrow> number" where
  "times_number a b = num_mul a b"

definition divide_number :: "number \<Rightarrow> number \<Rightarrow> number" where
  "divide_number a b = num_div a b"

definition inverse_number :: "number \<Rightarrow> number" where
  "inverse_number a = num_div (Fin 1) a"

definition abs_number :: "number \<Rightarrow> number" where
  "abs_number a = num_abs a"

definition less_number :: "number \<Rightarrow> number \<Rightarrow> bool" where
  "less_number a b = num_less a b"

definition less_eq_number :: "number \<Rightarrow> number \<Rightarrow> bool" where
  "less_eq_number a b = num_le a b"

instance ..

end

section \<open>Data model of the physics module\<close>

text \<open>
  The fields \<open>x\<close>, \<open>y\<close>, \<open>z\<close>, \<open>t\<close> of the source are named \<open>p_x\<close>, \<open>p_y\<close>, \<open>p_z\<close>,
  \<open>p_t\<close>, so that the one-letter names stay free for variables.
\<close>

record Vector3D =
  p_x :: number
  p_y :: number
  p_z :: number

record TrajectoryPoint = Vector3D +
  p_t :: number
  velocity :: "Vector3D option"

definition PITCH_LENGTH :: number where "PITCH_LENGTH = Fin 20.12"
definition STUMP_HEIGHT :: number where "STUMP_HEIGHT = Fin 0.711"
definition STUMP_WIDTH :: number where "STUMP_WIDTH = Fin 0.2286"
definition STUMP_RADIUS :: number where "STUMP_RADIUS = Fin 0.019"
definition BAIL_HEIGHT :: number where "BAIL_HEIGHT = Fin 0.013"
definition GRAVITY :: number where "GRAVITY = Fin 9.81"

text \<open>A sample with finite coordinates and no velocity, as an object literal gives it.\<close>

definition point :: "real \<Rightarrow> real \<Rightarrow> real \<Rightarrow> real \<Rightarrow> TrajectoryPoint" where
  "point a b c d = \<lparr>p_x = Fin a, p_y = Fin b, p_z = Fin c, p_t = Fin d, velocity = None\<rparr>"

section \<open>reconstruct3D\<close>

text \<open>
  The function has no check and no \<open>throw\<close>: it computes a sample from whatever
  numbers it is given. The object it returns has no \<open>velocity\<close>.
\<close>

definition reconstruct3D ::
  "number \<Rightarrow> number \<Rightarrow> number \<Rightarrow> number \<Rightarrow> number \<Rightarrow> TrajectoryPoint" where
  "reconstruct3D pixelX pixelY frameWidth frameHeight time =
     (let nx = (pixelX / frameWidth) * Fin 2 - Fin 1;
          ny = Fin 1 - (pixelY / frameHeight) * Fin 2;
          z = (time / Fin 0.5) * PITCH_LENGTH;
          x = nx * (z * Fin 0.1);
          y = (ny + Fin 0.5) * Fin 2
      in \<lparr>p_x = x, p_y = y, p_z = z, p_t = time, velocity = None\<rparr>)"

section \<open>checkWicketImpact\<close>

datatype PartHit = Off | Middle | Leg | Bails | NoPart

record ImpactResult =
  isHit :: bool
  impactPoint :: "Vector3D option"
  partHit :: "PartHit option"

text \<open>The test of the \<open>if\<close> that opens the loop body: the segment meets the plane.\<close>

definition crosses_plane :: "TrajectoryPoint \<Rightarrow> TrajectoryPoint \<Rightarrow> bool" where
  "crosses_plane p1 p2 \<longleftrightarrow>
     (p_z p1 \<le> PITCH_LENGTH \<and> p_z p2 \<ge> PITCH_LENGTH) \<or>
     (p_z p1 \<ge> PITCH_LENGTH \<and> p_z p2 \<le> PITCH_LENGTH)"

text \<open>The constants \<open>ratio\<close>, \<open>impactX\<close>, \<open>impactY\<close>, \<open>inWidth\<close>, \<open>inHeight\<close> of the body.\<close>

definition ratio :: "TrajectoryPoint \<Rightarrow> TrajectoryPoint \<Rightarrow> number" where
  "ratio p1 p2 = \<bar>PITCH_LENGTH - p_z p1\<bar> / \<bar>p_z p2 - p_z p1\<bar>"

definition impactX :: "TrajectoryPoint \<Rightarrow> TrajectoryPoint \<Rightarrow> number" where
  "impactX p1 p2 = p_x p1 + (p_x p2 - p_x p1) * ratio p1 p2"

definition impactY :: "TrajectoryPoint \<Rightarrow> TrajectoryPoint \<Rightarrow> number" where
  "impactY p1 p2 = p_y p1 + (p_y p2 - p_y p1) * ratio p1 p2"

definition inWidth :: "number \<Rightarrow> bool" where
  "inWidth ix \<longleftrightarrow> \<bar>ix\<bar> \<le> STUMP_WIDTH / Fin 2 + STUMP_RADIUS"

definition inHeight :: "number \<Rightarrow> bool" where
  "inHeight iy \<longleftrightarrow> iy \<ge> Fin 0 \<and> iy \<le> STUMP_HEIGHT + BAIL_HEIGHT"

text \<open>The choice of \<open>partHit\<close> inside the hit branch, in the order of the source.\<close>

definition part_of :: "number \<Rightarrow> number \<Rightarrow> PartHit" where
  "part_of ix iy =
     (if iy > STUMP_HEIGHT then Bails
      else
        (let offStumpX = STUMP_WIDTH / Fin 2;
             legStumpX = - STUMP_WIDTH / Fin 2
         in if \<bar>ix - offStumpX\<bar> \<le> STUMP_RADIUS * Fin 1.5 then Off
            else if \<bar>ix - legStumpX\<bar> \<le> STUMP_RADIUS * Fin 1.5 then Leg
            else if \<bar>ix\<bar> \<le> STUMP_RADIUS * Fin 1.5 then Middle
            else Middle))"

text \<open>
  One pass of the loop body on the pair \<open>(points[i], points[i+1])\<close>: \<open>Some r\<close> when the
  body returns \<open>r\<close>, \<open>None\<close> when control falls through to the next index.
\<close>

definition segment_impact :: "TrajectoryPoint \<Rightarrow> TrajectoryPoint \<Rightarrow> ImpactResult option" where
  "segment_impact p1 p2 =
     (if crosses_plane p1 p2 then
        (let ix = impactX p1 p2; iy = impactY p1 p2
         in if inWidth ix \<and> inHeight iy
            then Some \<lparr>isHit = True,
                       impactPoint = Some \<lparr>p_x = ix, p_y = iy, p_z = PITCH_LENGTH\<rparr>,
                       partHit = Some (part_of ix iy)\<rparr>
            else None)
      else None)"

text \<open>The pair makes the body return: it meets the plane and passes both tests.\<close>

definition segment_hits :: "TrajectoryPoint \<Rightarrow> TrajectoryPoint \<Rightarrow> bool" where
  "segment_hits p1 p2 \<longleftrightarrow>
     crosses_plane p1 p2 \<and> inWidth (impactX p1 p2) \<and> inHeight (impactY p1 p2)"

definition no_impact :: ImpactResult where
  "no_impact = \<lparr>isHit = False, impactPoint = None, partHit = Some NoPart\<rparr>"

text \<open>
  The loop over \<open>i = 0 .. points.length - 2\<close>, as recursion on the rest of the list. A
  list with fewer than two points has no pair and the loop body never runs.
\<close>

fun checkWicketImpact :: "TrajectoryPoint list \<Rightarrow> ImpactResult" where
  "checkWicketImpact (p1 # p2 # ps) =
     (case segment_impact p1 p2 of
        Some r \<Rightarrow> r
      | None \<Rightarrow> checkWicketImpact (p2 # ps))"
| "checkWicketImpact ps = no_impact"

section \<open>predictTrajectory\<close>

text \<open>The variables that the \<open>while\<close> loop updates, and the array it fills.\<close>

record PredictState =
  currentTime :: number
  currX :: number
  currY :: number
  currZ :: number
  currVy :: number
  predictions :: "TrajectoryPoint list"

text \<open>The test of the \<open>while\<close> loop; \<open>last_t\<close> is \<open>last.t\<close>.\<close>

definition predict_guard :: "number \<Rightarrow> number \<Rightarrow> PredictState \<Rightarrow> bool" where
  "predict_guard last_t predictionTime s \<longleftrightarrow>
     currentTime s < last_t + predictionTime \<and> currZ s < PITCH_LENGTH + Fin 2"

text \<open>One pass of the loop body: the Euler step, the bounce, the \<open>push\<close>.\<close>

definition predict_body :: "number \<Rightarrow> number \<Rightarrow> number \<Rightarrow> PredictState \<Rightarrow> PredictState" where
  "predict_body vx vz step s =
     (let time1 = currentTime s + step;
          x1 = currX s + vx * step;
          z1 = currZ s + vz * step;
          vy1 = currVy s - GRAVITY * step;
          y1 = currY s + vy1 * step;
          y2 = (if y1 < Fin 0 then - y1 * Fin 0.6 else y1);
          vy2 = (if y1 < Fin 0 then - vy1 * Fin 0.6 else vy1)
      in \<lparr>currentTime = time1, currX = x1, currY = y2, currZ = z1, currVy = vy2,
          predictions = predictions s @
            [\<lparr>p_x = x1, p_y = y2, p_z = z1, p_t = time1, velocity = None\<rparr>]\<rparr>)"

text \<open>
  The loop has no bound of its own (a step of zero never advances the clock), so it is a
  partial function: \<open>None\<close> is a loop that never ends.
\<close>

partial_function (option) predict_loop ::
  "number \<Rightarrow> number \<Rightarrow> number \<Rightarrow> number \<Rightarrow> number \<Rightarrow> PredictState \<Rightarrow> PredictState option" where
  "predict_loop last_t predictionTime step vx vz s =
     (if predict_guard last_t predictionTime s
      then predict_loop last_t predictionTime step vx vz (predict_body vx vz step s)
      else Some s)"

declare predict_loop.simps [code]

text \<open>
  The arguments \<open>predictionTime\<close> and \<open>step\<close> are given explicitly; a caller that omits
  them gets the defaults below.
\<close>

definition default_predictionTime :: number where "default_predictionTime = Fin 1.0"
definition default_step :: number where "default_step = Fin 0.05"

definition predictTrajectory ::
  "TrajectoryPoint list \<Rightarrow> number \<Rightarrow> number \<Rightarrow> TrajectoryPoint list option" where
  "predictTrajectory points predictionTime step =
     (if length points < 2 then Some []
      else
        (let last_pt = points ! (length points - 1);
             prev = points ! (length points - 2);
             dt = p_t last_pt - p_t prev;
             vx = (p_x last_pt - p_x prev) / dt;
             vy = (p_y last_pt - p_y prev) / dt;
             vz = (p_z last_pt - p_z prev) / dt
         in map_option predictions
              (predict_loop (p_t last_pt) predictionTime step vx vz
                 \<lparr>currentTime = p_t last_pt, currX = p_x last_pt, currY = p_y last_pt,
                  currZ = p_z last_pt, currVy = vy, predictions = []\<rparr>)))"

text \<open>
  Names for the parts of \<open>predictTrajectory\<close>, so that statements can speak of the state
  after any number of passes of the loop, whether or not the loop ends: the velocity
  estimate along one coordinate, the state before the first pass, one pass of the body
  with the estimated velocities, the object a pass pushes, and the loop test read on a
  sample (\<open>t < last.t + predictionTime && z < PITCH_LENGTH + 2\<close>).
\<close>

definition velocity_estimate :: "(TrajectoryPoint \<Rightarrow> number) \<Rightarrow> TrajectoryPoint list \<Rightarrow> number" where
  "velocity_estimate f points =
     (f (last points) - f (points ! (length points - 2))) /
     (p_t (last points) - p_t (points ! (length points - 2)))"

definition predict_start :: "TrajectoryPoint list \<Rightarrow> PredictState" where
  "predict_start points =
     \<lparr>currentTime = p_t (last points), currX = p_x (last points), currY = p_y (last points),
      currZ = p_z (last points), currVy = velocity_estimate p_y points, predictions = []\<rparr>"

definition predict_pass :: "TrajectoryPoint list \<Rightarrow> number \<Rightarrow> PredictState \<Rightarrow> PredictState" where
  "predict_pass points step u =
     predict_body (velocity_estimate p_x points) (velocity_estimate p_z points) step u"

definition sample_of :: "PredictState \<Rightarrow> TrajectoryPoint" where
  "sample_of u = \<lparr>p_x = currX u, p_y = currY u, p_z = currZ u, p_t = currentTime u,
                   velocity = None\<rparr>"

definition within_limits :: "TrajectoryPoint list \<Rightarrow> number \<Rightarrow> TrajectoryPoint \<Rightarrow> bool" where
  "within_limits points predictionTime q \<longleftrightarrow>
     p_t q < p_t (last points) + predictionTime \<and> p_z q < PITCH_LENGTH + Fin 2"

section \<open>generateSimulatedData\<close>

text \<open>
  The component function that regenerates a full delivery. Its numeric part is modelled:
  the initial conditions, the \<open>for\<close> loop over the frames and the list \<open>newPoints\<close>. The
  two calls of \<open>Math.random\<close> are the parameters \<open>rnd1\<close> and \<open>rnd2\<close>, in call order.
\<close>

record PitchPoint =
  pitch_x :: number
  pitch_z :: number

record AnalysisResult =
  analysis_isHit :: bool
  analysis_partHit :: string
  speedKmh :: number
  pitch :: PitchPoint
  impact :: Vector3D
  reasoning :: string

record SimState =
  sim_x :: number
  sim_y :: number
  sim_z :: number
  sim_vy :: number
  newPoints :: "TrajectoryPoint list"

definition frames :: nat where "frames = 60"

text \<open>One pass of the \<open>for\<close> body at index \<open>i\<close>.\<close>

definition sim_body :: "number \<Rightarrow> number \<Rightarrow> number \<Rightarrow> nat \<Rightarrow> SimState \<Rightarrow> SimState" where
  "sim_body vx vz dt i s =
     (let t = Fin (real i) * dt;
          pts = newPoints s @
            [\<lparr>p_x = sim_x s, p_y = sim_y s, p_z = sim_z s, p_t = t, velocity = None\<rparr>];
          x1 = sim_x s + vx * dt;
          z1 = sim_z s + vz * dt;
          y1 = sim_y s + sim_vy s * dt;
          vy1 = sim_vy s - Fin 9.81 * dt
      in if y1 < Fin 0 \<and> z1 < PITCH_LENGTH
         then \<lparr>sim_x = x1, sim_y = Fin 0, sim_z = z1, sim_vy = - vy1 * Fin 0.75,
               newPoints = pts\<rparr>
         else \<lparr>sim_x = x1, sim_y = y1, sim_z = z1, sim_vy = vy1, newPoints = pts\<rparr>)"

text \<open>The loop \<open>for (i = 0; i <= frames; i++)\<close>: \<open>n\<close> passes are left, starting at \<open>i\<close>.\<close>

fun sim_loop :: "number \<Rightarrow> number \<Rightarrow> number \<Rightarrow> nat \<Rightarrow> nat \<Rightarrow> SimState \<Rightarrow> SimState" where
  "sim_loop vx vz dt i 0 s = s"
| "sim_loop vx vz dt i (Suc n) s = sim_loop vx vz dt (Suc i) n (sim_body vx vz dt i s)"

definition generateSimulatedData ::
  "AnalysisResult option \<Rightarrow> number \<Rightarrow> number \<Rightarrow> TrajectoryPoint list" where
  "generateSimulatedData analysis rnd1 rnd2 =
     (let duration = (case analysis of
                        Some a \<Rightarrow> PITCH_LENGTH / (speedKmh a / Fin 3.6)
                      | None \<Rightarrow> Fin 0.8);
          dt = duration / Fin (real frames);
          x = (case analysis of
                 Some a \<Rightarrow> pitch_x (pitch a) * Fin 0.5
               | None \<Rightarrow> (rnd1 - Fin 0.5) * Fin 0.2);
          targetX = (case analysis of
                       Some a \<Rightarrow> p_x (impact a)
                     | None \<Rightarrow> (rnd2 - Fin 0.5) * Fin 0.4);
          pitchZ = (case analysis of
                      Some a \<Rightarrow> pitch_z (pitch a)
                    | None \<Rightarrow> PITCH_LENGTH * Fin 0.6);
          vz = PITCH_LENGTH / duration;
          vx = (targetX - x) / duration;
          tBounce = pitchZ / vz;
          vy = (Fin 0.5 * Fin 9.81 * tBounce * tBounce - Fin 2.2) / tBounce
      in newPoints
           (sim_loop vx vz dt 0 (Suc frames)
              \<lparr>sim_x = x, sim_y = Fin 2.2, sim_z = Fin 0, sim_vy = vy, newPoints = []\<rparr>))"

section \<open>Inputs used as examples\<close>

text \<open>
  The history of the specification's scenario, a history that reaches the ground within
  one step, a history that ends just before the stumps, one that ends beyond the margin,
  and one whose ball does not advance along the pitch.
\<close>

definition scenario :: "TrajectoryPoint list" where
  "scenario = [point 0 2.2 0 0, point 0.02 2.0 1.0 0.05]"

definition low_history :: "TrajectoryPoint list" where
  "low_history = [point 0 0.6 18 0, point 0 0.1 19 0.05]"

definition late_history :: "TrajectoryPoint list" where
  "late_history = [point 0 1 19 0, point 0 1 20 0.05]"

definition past_history :: "TrajectoryPoint list" where
  "past_history = [point 0 1 22 0, point 0 1 23 0.05]"


text \<open>A ball just above the ground and falling fast, for each of the two loops.\<close>

definition dropping :: PredictState where
  "dropping = \<lparr>currentTime = Fin 1, currX = Fin 0, currY = Fin 0.1, currZ = Fin 5,
                currVy = Fin (- 10), predictions = []\<rparr>"

definition falling :: SimState where
  "falling = \<lparr>sim_x = Fin 0, sim_y = Fin 0.1, sim_z = Fin 5, sim_vy = Fin (- 10), newPoints = []\<rparr>"

section \<open>Arithmetic of the number model\<close>

lemmas number_ops =
  plus_number_def uminus_number_def minus_number_def times_number_def
  divide_number_def abs_number_def less_number_def less_eq_number_def

lemmas consts_defs =
  PITCH_LENGTH_def STUMP_HEIGHT_def STUMP_WIDTH_def STUMP_RADIUS_def BAIL_HEIGHT_def
  GRAVITY_def

lemmas impact_defs =
  segment_impact_def crosses_plane_def ratio_def impactX_def impactY_def inWidth_def
  inHeight_def part_of_def Let_def

lemma num_add_NaN [simp]: "num_add a NaN = NaN" "num_add NaN a = NaN"
  by (cases a; simp)+

lemma num_mul_NaN [simp]: "num_mul a NaN = NaN" "num_mul NaN a = NaN"
  by (cases a; simp)+

lemma num_div_NaN [simp]: "num_div a NaN = NaN" "num_div NaN a = NaN"
  by (cases a; simp)+

lemma num_less_NaN [simp]: "\<not> num_less a NaN" "\<not> num_less NaN a"
  by (cases a; simp)+

lemma num_le_NaN [simp]: "\<not> num_le a NaN" "\<not> num_le NaN a"
  by (cases a; simp)+

lemma isFinite_inf_signed [simp]: "\<not> isFinite (inf_signed c)"
  by (cases c) simp_all

lemma nonfinite_mul_left: "\<not> isFinite a \<Longrightarrow> \<not> isFinite (a * b)"
  by (cases a; cases b) (simp_all add: number_ops)

lemma nonfinite_mul_right: "\<not> isFinite b \<Longrightarrow> \<not> isFinite (a * b)"
  by (cases a; cases b) (simp_all add: number_ops)

lemma nonfinite_div_left: "\<not> isFinite a \<Longrightarrow> \<not> isFinite (a / b)"
  by (cases a; cases b) (simp_all add: number_ops)

lemma nonfinite_add_left: "\<not> isFinite a \<Longrightarrow> \<not> isFinite (a + b)"
  by (cases a; cases b) (simp_all add: number_ops)

lemma nonfinite_sub_left: "\<not> isFinite a \<Longrightarrow> \<not> isFinite (a - b)"
  by (cases a; cases b) (simp_all add: number_ops)

lemma nonfinite_sub_right: "\<not> isFinite b \<Longrightarrow> \<not> isFinite (a - b)"
  by (cases a; cases b) (simp_all add: number_ops)

lemma div_NaN_right: "a / NaN = NaN"
  by (simp add: number_ops)

lemma finite_div_infinite: "isFinite a \<Longrightarrow> b = PInf \<or> b = NInf \<Longrightarrow> a / b = Fin 0"
  by (cases a) (auto simp: number_ops)

section \<open>The impact resolver scans for the first pair that hits\<close>

lemma segment_impact_hits:
  "segment_impact p1 p2 =
     (if segment_hits p1 p2
      then Some \<lparr>isHit = True,
                 impactPoint =
                   Some \<lparr>p_x = impactX p1 p2, p_y = impactY p1 p2, p_z = PITCH_LENGTH\<rparr>,
                 partHit = Some (part_of (impactX p1 p2) (impactY p1 p2))\<rparr>
      else None)"
  by (simp add: segment_impact_def segment_hits_def Let_def)

lemma isHit_segment_impact: "segment_impact p1 p2 = Some r \<Longrightarrow> isHit r"
  by (auto simp: segment_impact_def Let_def split: if_splits)

lemma checkWicketImpact_find:
  "checkWicketImpact ps =
     (case List.find (\<lambda>(p1, p2). segment_hits p1 p2) (zip ps (tl ps)) of
        None \<Rightarrow> \<lparr>isHit = False, impactPoint = None, partHit = Some NoPart\<rparr>
      | Some (p1, p2) \<Rightarrow>
          \<lparr>isHit = True,
           impactPoint =
             Some \<lparr>p_x = impactX p1 p2, p_y = impactY p1 p2, p_z = PITCH_LENGTH\<rparr>,
           partHit = Some (part_of (impactX p1 p2) (impactY p1 p2))\<rparr>)"
  by (induction ps rule: checkWicketImpact.induct)
     (simp_all add: segment_impact_hits no_impact_def)

lemma checkWicketImpact_append:
  "checkWicketImpact (pre @ p # post) =
     (if isHit (checkWicketImpact (pre @ [p])) then checkWicketImpact (pre @ [p])
      else checkWicketImpact (p # post))"
proof (induction pre rule: checkWicketImpact.induct)
  case (1 p1 p2 ps)
  then show ?case
    by (cases "segment_impact p1 p2") (auto dest: isHit_segment_impact)
qed (auto simp: no_impact_def dest: isHit_segment_impact split: option.splits)

text \<open>
  C1, as stated, fails. The path below goes past the plane wide of the stumps
  (\<open>x = 1\<close>) and comes back through it at \<open>x = 0.12\<close>. Its first pair meets the plane and
  fails the width test; the code does not stop there: it goes on to the second pair and
  reports a hit.
\<close>

theorem first_crossing_not_final:
  "crosses_plane (point 1 0.3 20 0) (point 1 0.3 21 1) \<and>
   \<not> inWidth (impactX (point 1 0.3 20 0) (point 1 0.3 21 1)) \<and>
   isHit (checkWicketImpact [point 1 0.3 20 0, point 1 0.3 21 1, point 0 0.3 20 2])"
  by (simp add: point_def segment_impact_def crosses_plane_def inWidth_def inHeight_def
      impactX_def impactY_def ratio_def number_ops consts_defs Let_def)

text \<open>
  C1, amended: the resolver scans the consecutive pairs in order and returns at the first
  pair that both meets the plane \<open>z = PITCH_LENGTH\<close> (one end at or before it, the other
  at or beyond it, in either direction) and whose crossing point, interpolated with
  \<open>ratio = |PITCH_LENGTH - z1| / |z2 - z1|\<close>, satisfies \<open>|x| \<le> STUMP_WIDTH / 2 +
  STUMP_RADIUS\<close> and \<open>0 \<le> y \<le> STUMP_HEIGHT + BAIL_HEIGHT\<close>. It reports that point as a
  hit; when no pair does both, it reports no hit. With the constants of the module the
  plane is \<open>z = 20.12\<close>, the width bound is \<open>0.1333\<close> and the height bound \<open>0.724\<close>.
\<close>

theorem checkWicketImpact_first_hitting_pair:
  "checkWicketImpact ps =
     (case List.find (\<lambda>(p1, p2). segment_hits p1 p2) (zip ps (tl ps)) of
        None \<Rightarrow> \<lparr>isHit = False, impactPoint = None, partHit = Some NoPart\<rparr>
      | Some (p1, p2) \<Rightarrow>
          \<lparr>isHit = True,
           impactPoint =
             Some \<lparr>p_x = impactX p1 p2, p_y = impactY p1 p2, p_z = PITCH_LENGTH\<rparr>,
           partHit = Some (part_of (impactX p1 p2) (impactY p1 p2))\<rparr>) \<and>
   (segment_hits a b \<longleftrightarrow>
      (p_z a \<le> Fin 20.12 \<and> Fin 20.12 \<le> p_z b \<or> Fin 20.12 \<le> p_z a \<and> p_z b \<le> Fin 20.12) \<and>
      \<bar>impactX a b\<bar> \<le> Fin 0.1333 \<and> Fin 0 \<le> impactY a b \<and> impactY a b \<le> Fin 0.724) \<and>
   impactX a b = p_x a + (p_x b - p_x a) * (\<bar>Fin 20.12 - p_z a\<bar> / \<bar>p_z b - p_z a\<bar>) \<and>
   impactY a b = p_y a + (p_y b - p_y a) * (\<bar>Fin 20.12 - p_z a\<bar> / \<bar>p_z b - p_z a\<bar>)"
proof (intro conjI)
  show "checkWicketImpact ps =
     (case List.find (\<lambda>(p1, p2). segment_hits p1 p2) (zip ps (tl ps)) of
        None \<Rightarrow> \<lparr>isHit = False, impactPoint = None, partHit = Some NoPart\<rparr>
      | Some (p1, p2) \<Rightarrow>
          \<lparr>isHit = True,
           impactPoint =
             Some \<lparr>p_x = impactX p1 p2, p_y = impactY p1 p2, p_z = PITCH_LENGTH\<rparr>,
           partHit = Some (part_of (impactX p1 p2) (impactY p1 p2))\<rparr>)"
    by (rule checkWicketImpact_find)
next
  have w: "STUMP_WIDTH / Fin 2 + STUMP_RADIUS = Fin 0.1333"
    and h: "STUMP_HEIGHT + BAIL_HEIGHT = Fin 0.724"
    by (simp_all add: number_ops consts_defs)
  show "segment_hits a b \<longleftrightarrow>
      (p_z a \<le> Fin 20.12 \<and> Fin 20.12 \<le> p_z b \<or> Fin 20.12 \<le> p_z a \<and> p_z b \<le> Fin 20.12) \<and>
      \<bar>impactX a b\<bar> \<le> Fin 0.1333 \<and> Fin 0 \<le> impactY a b \<and> impactY a b \<le> Fin 0.724"
    unfolding segment_hits_def crosses_plane_def inWidth_def inHeight_def w h PITCH_LENGTH_def
    by (rule refl)
next
  show "impactX a b = p_x a + (p_x b - p_x a) * (\<bar>Fin 20.12 - p_z a\<bar> / \<bar>p_z b - p_z a\<bar>)"
    unfolding impactX_def ratio_def PITCH_LENGTH_def by (rule refl)
next
  show "impactY a b = p_y a + (p_y b - p_y a) * (\<bar>Fin 20.12 - p_z a\<bar> / \<bar>p_z b - p_z a\<bar>)"
    unfolding impactY_def ratio_def PITCH_LENGTH_def by (rule refl)
qed

section \<open>Histories too short to extrapolate\<close>

text \<open>
  C6: for a history of fewer than two samples \<open>predictTrajectory\<close> returns the empty
  sequence. The result is a value (\<open>Some []\<close>): the function returns, and the source has
  no \<open>throw\<close> on this path.
\<close>

theorem predictTrajectory_short_history:
  "length points < 2 \<Longrightarrow> predictTrajectory points predictionTime step = Some []"
  by (simp add: predictTrajectory_def)

theorem predictTrajectory_short_history_witness:
  "length [point 0 2.2 0 0] < 2 \<and>
   predictTrajectory [point 0 2.2 0 0] default_predictionTime default_step = Some [] \<and>
   predictTrajectory [] default_predictionTime default_step = Some []"
  using predictTrajectory_short_history [of "[point 0 2.2 0 0]" default_predictionTime default_step]
    predictTrajectory_short_history [of "[]" default_predictionTime default_step]
  by simp

section \<open>Pairs with equal longitudinal coordinates\<close>

lemma num_le_antisym_Fin: "a \<le> Fin c \<Longrightarrow> Fin c \<le> a \<Longrightarrow> a = Fin c"
  by (cases a) (simp_all add: number_ops)

lemma degenerate_segment_none:
  assumes "p_z p1 = p_z p2"
  shows "segment_impact p1 p2 = None"
proof (cases "crosses_plane p1 p2")
  case False
  then show ?thesis by (simp add: segment_impact_def)
next
  case True
  with assms have "p_z p2 \<le> PITCH_LENGTH \<and> PITCH_LENGTH \<le> p_z p2"
    by (auto simp: crosses_plane_def)
  then have z2: "p_z p2 = PITCH_LENGTH"
    unfolding PITCH_LENGTH_def by (blast intro: num_le_antisym_Fin)
  with assms have z1: "p_z p1 = PITCH_LENGTH"
    by simp
  have "ratio p1 p2 = NaN"
    unfolding ratio_def z1 z2 by (simp add: number_ops consts_defs)
  then have "\<not> inWidth (impactX p1 p2)"
    by (simp add: inWidth_def impactX_def number_ops)
  then show ?thesis by (simp add: segment_impact_def Let_def)
qed

text \<open>
  C3, as stated, fails in its first half. The source has no guard before the division.
  A pair with both ends exactly on the plane passes the crossing test, so the body runs,
  the divisor \<open>|z2 - z1|\<close> is zero and \<open>ratio\<close> is \<open>0 / 0 = NaN\<close> (no exception in the
  source language).
\<close>

theorem degenerate_segment_divides_zero_by_zero:
  "crosses_plane (point 0 0.3 20.12 0) (point 0 0.3 20.12 0.1) \<and>
   \<bar>p_z (point 0 0.3 20.12 0.1) - p_z (point 0 0.3 20.12 0)\<bar> = Fin 0 \<and>
   ratio (point 0 0.3 20.12 0) (point 0 0.3 20.12 0.1) = NaN"
  by (simp add: point_def crosses_plane_def ratio_def number_ops consts_defs)

text \<open>
  C3, amended: on a pair whose ends have equal \<open>z\<close> the loop body never returns, so
  scanning continues and the result of the whole scan is that of the pairs before it,
  or else of the pairs after it. (When the equal \<open>z\<close> is off the plane the crossing test
  fails and nothing is divided; when it is on the plane the ratio is NaN and the width
  test on NaN is false.)
\<close>

theorem degenerate_segment_skipped:
  assumes "p_z p1 = p_z p2"
  shows "segment_impact p1 p2 = None \<and>
         checkWicketImpact (pre @ p1 # p2 # post) =
           (if isHit (checkWicketImpact (pre @ [p1])) then checkWicketImpact (pre @ [p1])
            else checkWicketImpact (p2 # post))"
proof -
  have none: "segment_impact p1 p2 = None"
    using assms by (rule degenerate_segment_none)
  have "checkWicketImpact (p1 # p2 # post) = checkWicketImpact (p2 # post)"
    by (simp add: none)
  with none show ?thesis
    by (simp add: checkWicketImpact_append [of pre p1 "p2 # post"])
qed

theorem degenerate_segment_skipped_witness:
  "p_z (point 0 0.3 20.12 0) = p_z (point 1 0.5 20.12 0.1) \<and>
   segment_impact (point 0 0.3 20.12 0) (point 1 0.5 20.12 0.1) = None \<and>
   checkWicketImpact [point 0 0.3 20.12 0, point 1 0.5 20.12 0.1, point 0.1 0.3 21 0.2] =
   checkWicketImpact [point 1 0.5 20.12 0.1, point 0.1 0.3 21 0.2]"
  using degenerate_segment_skipped [of "point 0 0.3 20.12 0" "point 1 0.5 20.12 0.1" "[]"
      "[point 0.1 0.3 21 0.2]"]
  by (simp add: point_def no_impact_def)

section \<open>Which part of the wicket is hit\<close>



section \<open>Paths that do not hit\<close>

text \<open>
  C8, as stated, fails in its second half. The first pair of the path below crosses
  the plane at \<open>x = 0.3\<close>, outside the widened stumps, so its crossing point fails the
  hit test; the path then comes back through the plane at \<open>x = 0.036\<close> and the scan,
  which did not stop at the failed crossing, reports a hit there.
\<close>

theorem failed_crossing_then_hit:
  "crosses_plane (point 0.3 0.3 19 0) (point 0.3 0.3 21 1) \<and>
   impactX (point 0.3 0.3 19 0) (point 0.3 0.3 21 1) = Fin 0.3 \<and>
   \<not> inWidth (Fin 0.3) \<and>
   checkWicketImpact [point 0.3 0.3 19 0, point 0.3 0.3 21 1, point 0 0.3 20 2] =
     \<lparr>isHit = True,
      impactPoint = Some \<lparr>p_x = Fin 0.036, p_y = Fin 0.3, p_z = PITCH_LENGTH\<rparr>,
      partHit = Some Middle\<rparr>"
  by (simp add: point_def impact_defs number_ops consts_defs)

text \<open>
  C8, amended: when no pair crosses the plane, and more generally when every pair that
  crosses the plane has a crossing point that fails the hit test, the result is
  \<open>isHit = false\<close>, \<open>partHit = 'none'\<close> and no impact point.
\<close>

theorem no_hitting_pair_no_impact:
  assumes "\<forall>i. Suc i < length ps \<longrightarrow> crosses_plane (ps ! i) (ps ! Suc i) \<longrightarrow>
             \<not> (inWidth (impactX (ps ! i) (ps ! Suc i)) \<and>
                inHeight (impactY (ps ! i) (ps ! Suc i)))"
  shows "checkWicketImpact ps = \<lparr>isHit = False, impactPoint = None, partHit = Some NoPart\<rparr>"
  using assms
proof (induction ps rule: checkWicketImpact.induct)
  case (1 p1 p2 ps)
  from "1.prems" [rule_format, of 0] have "\<not> segment_hits p1 p2"
    by (auto simp: segment_hits_def)
  then have none: "segment_impact p1 p2 = None"
    by (simp add: segment_impact_hits)
  have "\<forall>i. Suc i < length (p2 # ps) \<longrightarrow>
          crosses_plane ((p2 # ps) ! i) ((p2 # ps) ! Suc i) \<longrightarrow>
          \<not> (inWidth (impactX ((p2 # ps) ! i) ((p2 # ps) ! Suc i)) \<and>
             inHeight (impactY ((p2 # ps) ! i) ((p2 # ps) ! Suc i)))"
  proof (intro allI impI)
    fix i
    assume "Suc i < length (p2 # ps)"
      and "crosses_plane ((p2 # ps) ! i) ((p2 # ps) ! Suc i)"
    with "1.prems" [rule_format, of "Suc i"]
    show "\<not> (inWidth (impactX ((p2 # ps) ! i) ((p2 # ps) ! Suc i)) \<and>
             inHeight (impactY ((p2 # ps) ! i) ((p2 # ps) ! Suc i)))"
      by simp
  qed
  with "1.IH" [OF none] none show ?case by simp
qed (simp_all add: no_impact_def)

theorem no_hitting_pair_no_impact_witness:
  "crosses_plane (point 0.3 0.3 19 0) (point 0.3 0.3 21 1) \<and>
   impactX (point 0.3 0.3 19 0) (point 0.3 0.3 21 1) = Fin 0.3 \<and>
   \<not> inWidth (impactX (point 0.3 0.3 19 0) (point 0.3 0.3 21 1)) \<and>
   checkWicketImpact [point 0.3 0.3 19 0, point 0.3 0.3 21 1] =
     \<lparr>isHit = False, impactPoint = None, partHit = Some NoPart\<rparr> \<and>
   \<not> crosses_plane (point 0 2 0 0) (point 0 1 10 0.5) \<and>
   checkWicketImpact [point 0 2 0 0, point 0 1 10 0.5] =
     \<lparr>isHit = False, impactPoint = None, partHit = Some NoPart\<rparr>"
proof -
  have c: "crosses_plane (point 0.3 0.3 19 0) (point 0.3 0.3 21 1)"
    by (simp add: point_def impact_defs number_ops consts_defs)
  have x: "impactX (point 0.3 0.3 19 0) (point 0.3 0.3 21 1) = Fin 0.3"
    by (simp add: point_def impact_defs number_ops consts_defs)
  have w: "\<not> inWidth (impactX (point 0.3 0.3 19 0) (point 0.3 0.3 21 1))"
    unfolding x by (simp add: inWidth_def number_ops consts_defs)
  have n: "\<not> crosses_plane (point 0 2 0 0) (point 0 1 10 0.5)"
    by (simp add: point_def impact_defs number_ops consts_defs)
  have "checkWicketImpact [point 0.3 0.3 19 0, point 0.3 0.3 21 1] =
     \<lparr>isHit = False, impactPoint = None, partHit = Some NoPart\<rparr>"
    using w by (intro no_hitting_pair_no_impact) simp
  moreover have "checkWicketImpact [point 0 2 0 0, point 0 1 10 0.5] =
     \<lparr>isHit = False, impactPoint = None, partHit = Some NoPart\<rparr>"
    using n by (intro no_hitting_pair_no_impact) simp
  ultimately show ?thesis using c x w n by blast
qed

section \<open>The position estimator on non-finite input\<close>

text \<open>
  C2, as stated, fails: \<open>reconstruct3D\<close> has no check and cannot reject. With a NaN
  timestamp it returns a sample whose \<open>x\<close>, \<open>z\<close> and \<open>t\<close> are NaN; with an infinite frame
  size it returns a finite sample, the pixel coordinates having been divided down to
  zero.
\<close>

theorem reconstruct3D_nan_and_infinity:
  "reconstruct3D (Fin 320) (Fin 240) (Fin 640) (Fin 480) NaN =
     \<lparr>p_x = NaN, p_y = Fin 1, p_z = NaN, p_t = NaN, velocity = None\<rparr> \<and>
   reconstruct3D (Fin 320) (Fin 240) PInf PInf (Fin 0.25) =
     \<lparr>p_x = Fin (- 1.006), p_y = Fin 3, p_z = Fin 10.06, p_t = Fin 0.25, velocity = None\<rparr>"
  by (simp add: reconstruct3D_def number_ops consts_defs)

text \<open>
  C2, amended: \<open>reconstruct3D\<close> performs no validation and returns a sample for every
  input. A non-finite timestamp is returned unchanged as \<open>t\<close> and makes \<open>z\<close> and \<open>x\<close>
  non-finite; a non-finite \<open>pixelX\<close> or a NaN \<open>frameWidth\<close> makes \<open>x\<close> non-finite; a
  non-finite \<open>pixelY\<close> or a NaN \<open>frameHeight\<close> makes \<open>y\<close> non-finite. Infinite frame
  dimensions with finite pixel coordinates are absorbed (\<open>pixel / Infinity = 0\<close>): the
  sample is the one for pixel \<open>(0, 0)\<close> in a frame of size one at the same timestamp, and
  its \<open>y\<close> is \<open>3\<close> whatever \<open>pixelY\<close> is.
\<close>

theorem reconstruct3D_never_rejects:
  "(let r = reconstruct3D pixelX pixelY frameWidth frameHeight time in
     (\<not> isFinite time \<longrightarrow> p_t r = time \<and> \<not> isFinite (p_z r) \<and> \<not> isFinite (p_x r)) \<and>
     (\<not> isFinite pixelX \<or> frameWidth = NaN \<longrightarrow> \<not> isFinite (p_x r)) \<and>
     (\<not> isFinite pixelY \<or> frameHeight = NaN \<longrightarrow> \<not> isFinite (p_y r)) \<and>
     (isFinite pixelX \<and> isFinite pixelY \<and>
      (frameWidth = PInf \<or> frameWidth = NInf) \<and> (frameHeight = PInf \<or> frameHeight = NInf) \<longrightarrow>
        r = reconstruct3D (Fin 0) (Fin 0) (Fin 1) (Fin 1) time \<and> p_y r = Fin 3))"
proof -
  let ?r = "reconstruct3D pixelX pixelY frameWidth frameHeight time"
  have t: "\<not> isFinite time \<longrightarrow>
             p_t ?r = time \<and> \<not> isFinite (p_z ?r) \<and> \<not> isFinite (p_x ?r)"
    by (simp add: reconstruct3D_def Let_def nonfinite_mul_left nonfinite_mul_right
        nonfinite_div_left)
  have x: "\<not> isFinite pixelX \<or> frameWidth = NaN \<longrightarrow> \<not> isFinite (p_x ?r)"
  proof (intro impI)
    assume "\<not> isFinite pixelX \<or> frameWidth = NaN"
    then have "\<not> isFinite (pixelX / frameWidth)"
      by (auto simp: div_NaN_right nonfinite_div_left)
    then have "\<not> isFinite (pixelX / frameWidth * Fin 2 - Fin 1)"
      by (intro nonfinite_sub_left nonfinite_mul_left)
    then show "\<not> isFinite (p_x ?r)"
      by (simp add: reconstruct3D_def Let_def nonfinite_mul_left)
  qed
  have y: "\<not> isFinite pixelY \<or> frameHeight = NaN \<longrightarrow> \<not> isFinite (p_y ?r)"
  proof (intro impI)
    assume "\<not> isFinite pixelY \<or> frameHeight = NaN"
    then have "\<not> isFinite (pixelY / frameHeight)"
      by (auto simp: div_NaN_right nonfinite_div_left)
    then have "\<not> isFinite (Fin 1 - pixelY / frameHeight * Fin 2 + Fin 0.5)"
      by (intro nonfinite_add_left nonfinite_sub_right nonfinite_mul_left)
    then show "\<not> isFinite (p_y ?r)"
      by (simp add: reconstruct3D_def Let_def nonfinite_mul_left)
  qed
  have f: "isFinite pixelX \<and> isFinite pixelY \<and>
      (frameWidth = PInf \<or> frameWidth = NInf) \<and> (frameHeight = PInf \<or> frameHeight = NInf) \<longrightarrow>
        ?r = reconstruct3D (Fin 0) (Fin 0) (Fin 1) (Fin 1) time \<and> p_y ?r = Fin 3"
  proof (intro impI)
    assume a: "isFinite pixelX \<and> isFinite pixelY \<and>
      (frameWidth = PInf \<or> frameWidth = NInf) \<and> (frameHeight = PInf \<or> frameHeight = NInf)"
    then have dx: "pixelX / frameWidth = Fin 0" and dy: "pixelY / frameHeight = Fin 0"
      by (simp_all add: finite_div_infinite)
    have z: "Fin 0 / Fin 1 = Fin 0"
      by (simp add: number_ops)
    have "p_y ?r = Fin 3"
      unfolding reconstruct3D_def Let_def dy by (simp add: number_ops)
    moreover have "?r = reconstruct3D (Fin 0) (Fin 0) (Fin 1) (Fin 1) time"
      unfolding reconstruct3D_def Let_def dx dy z by (rule refl)
    ultimately show "?r = reconstruct3D (Fin 0) (Fin 0) (Fin 1) (Fin 1) time \<and> p_y ?r = Fin 3"
      by blast
  qed
  from t x y f show ?thesis
    unfolding Let_def by blast
qed

theorem reconstruct3D_never_rejects_witness:
  "\<not> isFinite NaN \<and> \<not> isFinite PInf \<and> isFinite (Fin 320) \<and>
   p_t (reconstruct3D (Fin 320) (Fin 240) (Fin 640) (Fin 480) NaN) = NaN \<and>
   \<not> isFinite (p_z (reconstruct3D (Fin 320) (Fin 240) (Fin 640) (Fin 480) NaN)) \<and>
   \<not> isFinite (p_x (reconstruct3D PInf PInf (Fin 640) (Fin 480) (Fin 0.25))) \<and>
   \<not> isFinite (p_y (reconstruct3D PInf PInf (Fin 640) (Fin 480) (Fin 0.25))) \<and>
   reconstruct3D (Fin 320) (Fin 240) PInf PInf (Fin 0.25) =
     reconstruct3D (Fin 0) (Fin 0) (Fin 1) (Fin 1) (Fin 0.25) \<and>
   p_y (reconstruct3D (Fin 320) (Fin 240) PInf PInf (Fin 0.25)) = Fin 3"
proof -
  have h: "\<not> isFinite NaN" "\<not> isFinite PInf" "isFinite (Fin 320)" "isFinite (Fin 240)"
    by simp_all
  from reconstruct3D_never_rejects [of "Fin 320" "Fin 240" "Fin 640" "Fin 480" NaN] h
  have a: "p_t (reconstruct3D (Fin 320) (Fin 240) (Fin 640) (Fin 480) NaN) = NaN \<and>
      \<not> isFinite (p_z (reconstruct3D (Fin 320) (Fin 240) (Fin 640) (Fin 480) NaN))"
    unfolding Let_def by blast
  from reconstruct3D_never_rejects [of PInf PInf "Fin 640" "Fin 480" "Fin 0.25"] h
  have b: "\<not> isFinite (p_x (reconstruct3D PInf PInf (Fin 640) (Fin 480) (Fin 0.25))) \<and>
      \<not> isFinite (p_y (reconstruct3D PInf PInf (Fin 640) (Fin 480) (Fin 0.25)))"
    unfolding Let_def by blast
  from reconstruct3D_never_rejects [of "Fin 320" "Fin 240" PInf PInf "Fin 0.25"] h
  have c: "reconstruct3D (Fin 320) (Fin 240) PInf PInf (Fin 0.25) =
      reconstruct3D (Fin 0) (Fin 0) (Fin 1) (Fin 1) (Fin 0.25) \<and>
      p_y (reconstruct3D (Fin 320) (Fin 240) PInf PInf (Fin 0.25)) = Fin 3"
    unfolding Let_def by blast
  from h a b c show ?thesis by blast
qed

section \<open>The two bounce rules\<close>

text \<open>
  C4, as stated, fails at the second call site. In \<open>generateSimulatedData\<close> a ball whose
  integrated height is \<open>-0.4\<close> before the stumps is put on the ground (\<open>y = 0\<close>), not
  reflected to \<open>0.4 * 0.75 = 0.3\<close>; and at or beyond \<open>PITCH_LENGTH\<close> there is no bounce at
  all: the height stays negative and the velocity is only decreased by gravity.
\<close>

theorem simulated_bounce_clamps_to_ground:
  "sim_y falling + sim_vy falling * Fin 0.05 = Fin (- 0.4) \<and>
   Fin (- 0.4) < Fin 0 \<and>
   - Fin (- 0.4) * Fin 0.75 = Fin 0.3 \<and>
   sim_y (sim_body (Fin 0) (Fin 20) (Fin 0.05) 3 falling) = Fin 0 \<and>
   sim_y (sim_body (Fin 0) (Fin 20) (Fin 0.05) 3 (falling\<lparr>sim_z := Fin 20\<rparr>)) = Fin (- 0.4) \<and>
   sim_vy (sim_body (Fin 0) (Fin 20) (Fin 0.05) 3 (falling\<lparr>sim_z := Fin 20\<rparr>)) = Fin (- 10.4905)"
  by (simp add: falling_def sim_body_def Let_def number_ops consts_defs)

text \<open>
  C4, amended: in \<open>predictTrajectory\<close> (factor 0.6), whenever the integrated height \<open>y\<close>
  is negative after a step, \<open>y := -y * 0.6\<close> and \<open>vy := -vy * 0.6\<close>, and the sample pushed
  in that step carries the reflected height; otherwise both stay as integrated. In
  \<open>generateSimulatedData\<close> (factor 0.75), when the integrated \<open>y\<close> is negative and the
  integrated \<open>z\<close> is less than \<open>PITCH_LENGTH\<close>, \<open>y := 0\<close> and \<open>vy := -vy * 0.75\<close>, where
  \<open>vy\<close> has already been decreased by gravity; otherwise both stay as integrated.
\<close>

theorem bounce_rules:
  "(let vy1 = currVy s - GRAVITY * step;
        y1 = currY s + vy1 * step;
        s' = predict_body vx vz step s
    in (y1 < Fin 0 \<longrightarrow> currY s' = - y1 * Fin 0.6 \<and> currVy s' = - vy1 * Fin 0.6) \<and>
       (\<not> y1 < Fin 0 \<longrightarrow> currY s' = y1 \<and> currVy s' = vy1) \<and>
       p_y (last (predictions s')) = currY s') \<and>
   (let y1 = sim_y u + sim_vy u * dt;
        z1 = sim_z u + wz * dt;
        vy1 = sim_vy u - Fin 9.81 * dt;
        u' = sim_body wx wz dt i u
    in (y1 < Fin 0 \<and> z1 < PITCH_LENGTH \<longrightarrow> sim_y u' = Fin 0 \<and> sim_vy u' = - vy1 * Fin 0.75) \<and>
       (\<not> (y1 < Fin 0 \<and> z1 < PITCH_LENGTH) \<longrightarrow> sim_y u' = y1 \<and> sim_vy u' = vy1))"
  by (simp add: predict_body_def sim_body_def Let_def)

theorem bounce_rules_witness:
  "currY dropping + (currVy dropping - GRAVITY * Fin 0.05) * Fin 0.05 < Fin 0 \<and>
   currY (predict_body (Fin 0) (Fin 20) (Fin 0.05) dropping) = Fin 0.254715 \<and>
   currVy (predict_body (Fin 0) (Fin 20) (Fin 0.05) dropping) = Fin 6.2943 \<and>
   sim_y falling + sim_vy falling * Fin 0.05 < Fin 0 \<and>
   sim_z falling + Fin 20 * Fin 0.05 < PITCH_LENGTH \<and>
   sim_y (sim_body (Fin 0) (Fin 20) (Fin 0.05) 3 falling) = Fin 0 \<and>
   sim_vy (sim_body (Fin 0) (Fin 20) (Fin 0.05) 3 falling) = Fin 7.867875"
  using bounce_rules [of dropping "Fin 0.05" "Fin 0" "Fin 20" falling "Fin 0.05" "Fin 20" "Fin 0" 3]
  by (simp add: Let_def dropping_def falling_def number_ops consts_defs)

section \<open>The prediction loop, pass by pass\<close>


lemma currZ_predict_body [simp]:
  "currZ (predict_body vx vz step u) = currZ u + vz * step"
  by (simp add: predict_body_def Let_def)

lemma predict_body_push:
  "predictions (predict_body vx vz step u) = predictions u @ [sample_of (predict_body vx vz step u)]"
  by (simp add: predict_body_def sample_of_def Let_def)

lemma predict_pass_fun:
  "predict_pass points step =
     predict_body (velocity_estimate p_x points) (velocity_estimate p_z points) step"
  by (rule ext) (simp add: predict_pass_def)




lemma p_y_sample_of: "p_y (sample_of u) = currY u"
  by (simp add: sample_of_def)

text \<open>
  The loop returns the first state, counted in passes of the body, at which the test
  fails, and returns nothing when there is no such state. This is the shape of the
  \<open>while\<close> loop alone and holds whatever the arithmetic of the body is.
\<close>

lemma predict_loop_reaches:
  assumes "\<not> predict_guard t H ((predict_body vx vz step ^^ k) s)"
    and "\<forall>j<k. predict_guard t H ((predict_body vx vz step ^^ j) s)"
  shows "predict_loop t H step vx vz s = Some ((predict_body vx vz step ^^ k) s)"
  using assms
proof (induction k arbitrary: s)
  case 0
  then show ?case by (subst predict_loop.simps) simp
next
  case (Suc k)
  from Suc.prems(2) have g: "predict_guard t H s"
    by (auto dest: spec [of _ 0])
  have "\<forall>j<k. predict_guard t H ((predict_body vx vz step ^^ j) (predict_body vx vz step s))"
  proof (intro allI impI)
    fix j assume "j < k"
    with Suc.prems(2) have "predict_guard t H ((predict_body vx vz step ^^ Suc j) s)"
      by (auto simp del: funpow.simps)
    then show "predict_guard t H ((predict_body vx vz step ^^ j) (predict_body vx vz step s))"
      by (simp add: funpow_swap1)
  qed
  moreover from Suc.prems(1)
  have "\<not> predict_guard t H ((predict_body vx vz step ^^ k) (predict_body vx vz step s))"
    by (simp add: funpow_swap1)
  ultimately have "predict_loop t H step vx vz (predict_body vx vz step s) =
      Some ((predict_body vx vz step ^^ k) (predict_body vx vz step s))"
    by (rule Suc.IH [rotated])
  with g show ?case
    by (subst predict_loop.simps) (simp add: funpow_swap1)
qed

lemma predict_loop_stops:
  assumes "predict_loop t H step vx vz s = Some s'"
  shows "\<exists>k. s' = (predict_body vx vz step ^^ k) s \<and> \<not> predict_guard t H s' \<and>
             (\<forall>j<k. predict_guard t H ((predict_body vx vz step ^^ j) s))"
proof -
  define Q where "Q t H step vx vz s s' \<longleftrightarrow>
      (\<exists>k. s' = (predict_body vx vz step ^^ k) s \<and> \<not> predict_guard t H s' \<and>
           (\<forall>j<k. predict_guard t H ((predict_body vx vz step ^^ j) s)))"
    for t H step vx vz :: number and s s' :: PredictState
  have "Q t H step vx vz s s'"
  proof (rule predict_loop.raw_induct [where P = Q, OF _ assms])
    fix loop t H step vx vz and s s' :: PredictState
    assume IH: "\<And>t H step vx vz s s'. loop t H step vx vz s = Some s' \<Longrightarrow> Q t H step vx vz s s'"
      and eq: "(if predict_guard t H s then loop t H step vx vz (predict_body vx vz step s)
                else Some s) = Some s'"
    show "Q t H step vx vz s s'"
    proof (cases "predict_guard t H s")
      case False
      with eq have "s' = s" by simp
      with False show ?thesis
        unfolding Q_def by (intro exI [of _ 0]) simp
    next
      case True
      with eq have "loop t H step vx vz (predict_body vx vz step s) = Some s'" by simp
      then have "Q t H step vx vz (predict_body vx vz step s) s'" by (rule IH)
      then obtain k where
        k: "s' = (predict_body vx vz step ^^ k) (predict_body vx vz step s)"
           "\<not> predict_guard t H s'"
           "\<forall>j<k. predict_guard t H
              ((predict_body vx vz step ^^ j) (predict_body vx vz step s))"
        unfolding Q_def by blast
      have "predict_guard t H ((predict_body vx vz step ^^ j) s)" if j: "j < Suc k" for j
      proof (cases j)
        case 0
        with True show ?thesis by simp
      next
        case (Suc i)
        with j k(3) show ?thesis by (simp add: funpow_swap1)
      qed
      with k(1,2) show ?thesis
        unfolding Q_def by (intro exI [of _ "Suc k"]) (simp add: funpow_swap1)
    qed
  qed
  then show ?thesis by (simp add: Q_def)
qed

lemma predict_loop_returns_iff:
  "(\<exists>s'. predict_loop t H step vx vz s = Some s') \<longleftrightarrow>
   (\<exists>k. \<not> predict_guard t H ((predict_body vx vz step ^^ k) s))"
proof
  assume "\<exists>s'. predict_loop t H step vx vz s = Some s'"
  then show "\<exists>k. \<not> predict_guard t H ((predict_body vx vz step ^^ k) s)"
    by (blast dest: predict_loop_stops)
next
  assume ex: "\<exists>k. \<not> predict_guard t H ((predict_body vx vz step ^^ k) s)"
  define k where "k = (LEAST k. \<not> predict_guard t H ((predict_body vx vz step ^^ k) s))"
  from ex have "\<not> predict_guard t H ((predict_body vx vz step ^^ k) s)"
    unfolding k_def by (rule LeastI_ex)
  moreover have "\<forall>j<k. predict_guard t H ((predict_body vx vz step ^^ j) s)"
    unfolding k_def by (auto dest: not_less_Least)
  ultimately show "\<exists>s'. predict_loop t H step vx vz s = Some s'"
    by (blast dest: predict_loop_reaches)
qed

lemma predictions_funpow:
  "predictions ((predict_body vx vz step ^^ k) s) =
     predictions s @ map (\<lambda>j. sample_of ((predict_body vx vz step ^^ Suc j) s)) [0..<k]"
proof (induction k)
  case 0
  show ?case by simp
next
  case (Suc k)
  have "predictions (predict_body vx vz step ((predict_body vx vz step ^^ k) s)) =
      predictions ((predict_body vx vz step ^^ k) s) @
        [sample_of (predict_body vx vz step ((predict_body vx vz step ^^ k) s))]"
    by (rule predict_body_push)
  with Suc show ?case by simp
qed

lemma predictTrajectory_loop:
  assumes len: "2 \<le> length points"
  shows "predictTrajectory points H step =
     map_option predictions
       (predict_loop (p_t (last points)) H step (velocity_estimate p_x points)
          (velocity_estimate p_z points) (predict_start points))"
proof -
  from len have "points \<noteq> []" by auto
  then have "points ! (length points - 1) = last points"
    by (simp add: last_conv_nth)
  with len show ?thesis
    by (simp add: predictTrajectory_def Let_def predict_start_def velocity_estimate_def)
qed

lemma guard_within_limits:
  "predict_guard (p_t (last points)) H u \<longleftrightarrow> within_limits points H (sample_of u)"
  by (simp add: predict_guard_def within_limits_def sample_of_def)

lemma within_limits_start:
  "within_limits points H (sample_of (predict_start points)) \<longleftrightarrow>
   within_limits points H (last points)"
  by (simp add: within_limits_def sample_of_def predict_start_def)

lemma predictTrajectory_Some_iff:
  assumes len: "2 \<le> length points"
  shows "predictTrajectory points H step = Some out \<longleftrightarrow>
     (\<exists>k. out = predictions ((predict_pass points step ^^ k) (predict_start points)) \<and>
          \<not> within_limits points H (sample_of ((predict_pass points step ^^ k) (predict_start points))) \<and>
          (\<forall>j<k. within_limits points H
                    (sample_of ((predict_pass points step ^^ j) (predict_start points)))))"
proof
  assume "predictTrajectory points H step = Some out"
  then obtain s' where s': "predict_loop (p_t (last points)) H step (velocity_estimate p_x points)
          (velocity_estimate p_z points) (predict_start points) = Some s'" "out = predictions s'"
    by (auto simp: predictTrajectory_loop [OF len])
  from predict_loop_stops [OF s'(1)] s'(2)
  show "\<exists>k. out = predictions ((predict_pass points step ^^ k) (predict_start points)) \<and>
          \<not> within_limits points H (sample_of ((predict_pass points step ^^ k) (predict_start points))) \<and>
          (\<forall>j<k. within_limits points H
                    (sample_of ((predict_pass points step ^^ j) (predict_start points))))"
    unfolding predict_pass_fun guard_within_limits by blast
next
  assume "\<exists>k. out = predictions ((predict_pass points step ^^ k) (predict_start points)) \<and>
          \<not> within_limits points H (sample_of ((predict_pass points step ^^ k) (predict_start points))) \<and>
          (\<forall>j<k. within_limits points H
                    (sample_of ((predict_pass points step ^^ j) (predict_start points))))"
  then obtain k where k: "out = predictions ((predict_pass points step ^^ k) (predict_start points))"
    "\<not> predict_guard (p_t (last points)) H ((predict_pass points step ^^ k) (predict_start points))"
    "\<forall>j<k. predict_guard (p_t (last points)) H
             ((predict_pass points step ^^ j) (predict_start points))"
    unfolding guard_within_limits by blast
  from predict_loop_reaches [OF k(2,3) [unfolded predict_pass_fun]] k(1)
  show "predictTrajectory points H step = Some out"
    by (simp add: predictTrajectory_loop [OF len] predict_pass_fun)
qed

lemma predictions_pass:
  "predictions ((predict_pass points step ^^ k) (predict_start points)) =
     map (\<lambda>j. sample_of ((predict_pass points step ^^ Suc j) (predict_start points))) [0..<k]"
  unfolding predict_pass_fun
  by (subst predictions_funpow) (simp add: predict_start_def)


lemma scenario_value:
  "predictTrajectory scenario (Fin 0.6) (Fin 0.05) = Some
    [point 0.04 1.775475 2 0.1, point 0.06 1.526425 3 0.15, point 0.08 1.25285 4 0.2,
     point 0.1 0.95475 5 0.25, point 0.12 0.632125 6 0.3, point 0.14 0.284975 7 0.35,
     point 0.16 0.05202 8 0.4, point 0.18 0.2505 9 0.45, point 0.2 0.424455 10 0.5,
     point 0.22 0.573885 11 0.55, point 0.24 0.69879 12 0.6, point 0.26 0.79917 13 0.65]"
  by (simp add: scenario_def predictTrajectory_def point_def Let_def number_ops consts_defs
      predict_loop.simps predict_guard_def predict_body_def)

section \<open>Timestamps of the prediction\<close>









section \<open>The scenario of the specification, and where emission stops\<close>

text \<open>
  C9: for the history \<open>[(0, 2.2, 0, 0), (0.02, 2.0, 1.0, 0.05)]\<close>, horizon \<open>0.6\<close> and
  step \<open>0.05\<close>, exact arithmetic gives \<open>floor (0.6 / 0.05) = 12\<close> samples with strictly
  increasing \<open>z\<close>. In general, for every history of at least two samples, every horizon
  and every step: when the last sample of the history already fails the loop test
  (its \<open>z\<close> is not below \<open>PITCH_LENGTH + 2\<close>, or the horizon leaves no time) nothing is
  emitted; otherwise, when a sequence is returned, it is not empty, every sample that
  is followed by another one passes the test (elapsed time below the horizon and \<open>z\<close>
  below \<open>PITCH_LENGTH + 2\<close>) and the last sample fails it. So nothing is emitted after a
  sample whose time has reached (in particular exceeded) the horizon or whose \<open>z\<close> has
  reached (in particular exceeded) the course length plus the margin. A sequence is
  returned exactly when some number of passes reaches a state that fails the test.
\<close>

theorem predictTrajectory_scenario_and_stop:
  "(\<exists>out. predictTrajectory scenario (Fin 0.6) (Fin 0.05) = Some out \<and>
          length out = nat \<lfloor>(0.6::real) / 0.05\<rfloor> \<and> length out = 12 \<and>
          sorted_wrt (\<lambda>a b. p_z a < p_z b) out) \<and>
   (2 \<le> length points \<longrightarrow>
      (\<not> within_limits points H (last points) \<longrightarrow>
         predictTrajectory points H step = Some []) \<and>
      (within_limits points H (last points) \<and> predictTrajectory points H step = Some out \<longrightarrow>
         out \<noteq> [] \<and>
         (\<forall>i. Suc i < length out \<longrightarrow> within_limits points H (out ! i)) \<and>
         \<not> within_limits points H (last out)) \<and>
      ((\<exists>res. predictTrajectory points H step = Some res) \<longleftrightarrow>
       (\<exists>k. \<not> within_limits points H
               (sample_of ((predict_pass points step ^^ k) (predict_start points))))))"
proof -
  let ?st = "\<lambda>k. (predict_pass points step ^^ k) (predict_start points)"
  have scen: "\<exists>out. predictTrajectory scenario (Fin 0.6) (Fin 0.05) = Some out \<and>
          length out = nat \<lfloor>(0.6::real) / 0.05\<rfloor> \<and> length out = 12 \<and>
          sorted_wrt (\<lambda>a b. p_z a < p_z b) out"
    unfolding scenario_value by (simp add: point_def number_ops)
  have none: "predictTrajectory points H step = Some []"
    if len: "2 \<le> length points" and "\<not> within_limits points H (last points)"
  proof -
    from that have "\<not> within_limits points H (sample_of (?st 0))"
      by (simp add: within_limits_start)
    then show ?thesis
      unfolding predictTrajectory_Some_iff [OF len]
      by (intro exI [of _ 0]) (simp add: predict_start_def)
  qed
  have some: "out \<noteq> [] \<and>
         (\<forall>i. Suc i < length out \<longrightarrow> within_limits points H (out ! i)) \<and>
         \<not> within_limits points H (last out)"
    if len: "2 \<le> length points" and w: "within_limits points H (last points)"
      and r: "predictTrajectory points H step = Some out"
  proof -
    from r obtain k where out: "out = predictions (?st k)"
      and stop: "\<not> within_limits points H (sample_of (?st k))"
      and run: "\<forall>j<k. within_limits points H (sample_of (?st j))"
      unfolding predictTrajectory_Some_iff [OF len] by blast
    have "k \<noteq> 0"
    proof
      assume "k = 0"
      with stop w show False by (simp add: within_limits_start)
    qed
    have out': "out = map (\<lambda>j. sample_of (?st (Suc j))) [0..<k]"
      unfolding out by (rule predictions_pass)
    then have lk: "length out = k" by simp
    with \<open>k \<noteq> 0\<close> have ne: "out \<noteq> []" by auto
    have mid: "within_limits points H (out ! i)" if "Suc i < length out" for i
    proof -
      from that lk have i: "Suc i < k" by simp
      then have "out ! i = sample_of (?st (Suc i))"
        unfolding out' by (simp del: funpow.simps)
      with run i show ?thesis by (simp del: funpow.simps)
    qed
    from \<open>k \<noteq> 0\<close> obtain m where m: "k = Suc m"
      by (cases k) auto
    have "last out = out ! m"
      using ne lk m by (simp add: last_conv_nth)
    also have "\<dots> = sample_of (?st (Suc m))"
      unfolding out' m by (simp del: funpow.simps upt_Suc)
    finally have "\<not> within_limits points H (last out)"
      using stop m by (simp del: funpow.simps)
    with ne mid show ?thesis by blast
  qed
  have iff: "(\<exists>res. predictTrajectory points H step = Some res) \<longleftrightarrow>
       (\<exists>k. \<not> within_limits points H (sample_of (?st k)))"
    if len: "2 \<le> length points"
    unfolding predictTrajectory_loop [OF len] predict_pass_fun
      guard_within_limits [symmetric] predict_loop_returns_iff [symmetric]
    by auto
  from scen none some iff show ?thesis by blast
qed

theorem predictTrajectory_scenario_and_stop_witness:
  "2 \<le> length late_history \<and> within_limits late_history (Fin 1) (last late_history) \<and>
   (\<exists>out. predictTrajectory late_history (Fin 1) (Fin 0.05) = Some out \<and>
          map p_z out = [Fin 21, Fin 22, Fin 23] \<and>
          map p_t out = [Fin 0.1, Fin 0.15, Fin 0.2] \<and>
          within_limits late_history (Fin 1) (out ! 1) \<and>
          PITCH_LENGTH + Fin 2 \<le> p_z (last out)) \<and>
   2 \<le> length past_history \<and> PITCH_LENGTH + Fin 2 \<le> p_z (last past_history) \<and>
   predictTrajectory past_history (Fin 1) (Fin 0.05) = Some []"
proof -
  have e: "predictTrajectory late_history (Fin 1) (Fin 0.05) = Some
      [point 0 0.975475 21 0.1, point 0 0.926425 22 0.15, point 0 0.85285 23 0.2]"
    by (simp add: late_history_def predictTrajectory_def point_def Let_def number_ops
        consts_defs predict_loop.simps predict_guard_def predict_body_def)
  have l: "2 \<le> length late_history" "within_limits late_history (Fin 1) (last late_history)"
    by (simp_all add: late_history_def within_limits_def point_def number_ops consts_defs)
  have p: "2 \<le> length past_history" "PITCH_LENGTH + Fin 2 \<le> p_z (last past_history)"
    "\<not> within_limits past_history (Fin 1) (last past_history)"
    by (simp_all add: past_history_def within_limits_def point_def number_ops consts_defs)
  note stop_rule = predictTrajectory_scenario_and_stop
  from stop_rule [of late_history "Fin 1" "Fin 0.05"
      "[point 0 0.975475 21 0.1, point 0 0.926425 22 0.15, point 0 0.85285 23 0.2]"] l e
  have "\<forall>i. Suc i < length [point 0 0.975475 21 0.1, point 0 0.926425 22 0.15,
                                point 0 0.85285 23 0.2] \<longrightarrow>
      within_limits late_history (Fin 1)
        ([point 0 0.975475 21 0.1, point 0 0.926425 22 0.15, point 0 0.85285 23 0.2] ! i)"
    by blast
  from this [rule_format, of 1]
  have "within_limits late_history (Fin 1)
      ([point 0 0.975475 21 0.1, point 0 0.926425 22 0.15, point 0 0.85285 23 0.2] ! 1)"
    by simp
  moreover from stop_rule [of past_history "Fin 1" "Fin 0.05"] p
  have "predictTrajectory past_history (Fin 1) (Fin 0.05) = Some []"
    by blast
  ultimately show ?thesis
    using e l p by (simp add: point_def number_ops consts_defs)
qed

section \<open>Heights of the prediction\<close>

lemma bounced_height:
  "Fin 0 \<le> (if n < Fin 0 then - n * Fin 0.6 else n) \<or>
   (if n < Fin 0 then - n * Fin 0.6 else n) = NaN"
  by (cases n) (simp_all add: number_ops)

lemma currY_body:
  "Fin 0 \<le> currY (predict_body vx vz step u) \<or> currY (predict_body vx vz step u) = NaN"
proof -
  have "currY (predict_body vx vz step u) =
      (if currY u + (currVy u - GRAVITY * step) * step < Fin 0
       then - (currY u + (currVy u - GRAVITY * step) * step) * Fin 0.6
       else currY u + (currVy u - GRAVITY * step) * step)"
    by (simp add: predict_body_def Let_def)
  then show ?thesis
    using bounced_height [of "currY u + (currVy u - GRAVITY * step) * step"] by simp
qed

text \<open>
  C10, as stated, fails. The claim is made for every history; for a history whose last
  two samples have the same timestamp and the same height the velocity estimate is
  \<open>0 / 0 = NaN\<close>, the test \<open>currY < 0\<close> is false on NaN, and the one sample emitted has
  the height NaN, which is not \<open>\<ge> 0\<close>.
\<close>

theorem equal_timestamps_give_nan_height:
  "predictTrajectory [point 0 1 0 0, point 0 1 1 0] (Fin 1) (Fin 0.05) =
     Some [\<lparr>p_x = NaN, p_y = NaN, p_z = PInf, p_t = Fin 0.05, velocity = None\<rparr>] \<and>
   \<not> Fin 0 \<le> NaN"
  by (simp add: predictTrajectory_def point_def Let_def number_ops consts_defs
      predict_loop.simps predict_guard_def predict_body_def)

text \<open>
  C10, amended: for every history, horizon and step, every sample pushed by
  \<open>predictTrajectory\<close> after any number of passes, and so every sample of the sequence it
  returns when the loop ends, has a height that is \<open>\<ge> 0\<close> or NaN: the bounce leaves no
  negative height, and NaN is the one value it lets through.
\<close>

theorem predictTrajectory_heights_nonnegative:
  "(\<forall>k. \<forall>p\<in>set (predictions ((predict_pass points step ^^ k) (predict_start points))).
        Fin 0 \<le> p_y p \<or> p_y p = NaN) \<and>
   (predictTrajectory points H step = Some out \<longrightarrow>
      (\<forall>p\<in>set out. Fin 0 \<le> p_y p \<or> p_y p = NaN))"
proof -
  let ?st = "\<lambda>k. (predict_pass points step ^^ k) (predict_start points)"
  have pushed: "Fin 0 \<le> p_y p \<or> p_y p = NaN" if "p \<in> set (predictions (?st k))" for k p
  proof -
    from that obtain j where "p = sample_of (?st (Suc j))"
      unfolding predictions_pass by auto
    then have "p_y p = currY (predict_body (velocity_estimate p_x points)
        (velocity_estimate p_z points) step (?st j))"
      by (simp add: p_y_sample_of predict_pass_fun)
    then show ?thesis
      using currY_body by simp
  qed
  have ret: "\<forall>p\<in>set out. Fin 0 \<le> p_y p \<or> p_y p = NaN"
    if r: "predictTrajectory points H step = Some out"
  proof (cases "length points < 2")
    case True
    with r show ?thesis by (simp add: predictTrajectory_def)
  next
    case False
    then have len: "2 \<le> length points" by simp
    from r obtain k where "out = predictions (?st k)"
      unfolding predictTrajectory_Some_iff [OF len] by blast
    with pushed show ?thesis by blast
  qed
  from pushed ret show ?thesis by blast
qed

theorem predictTrajectory_heights_nonnegative_witness:
  "predictTrajectory low_history (Fin 1) (Fin 0.05) = Some
      [point 0 0.254715 20 0.1, point 0 0.544905 21 0.15, point 0 0.81057 22 0.2,
       point 0 1.05171 23 0.25] \<and>
   (Fin 0 \<le> p_y (point 0 0.254715 20 0.1) \<or> p_y (point 0 0.254715 20 0.1) = NaN) \<and>
   (Fin 0 \<le> p_y (point 0 1.05171 23 0.25) \<or> p_y (point 0 1.05171 23 0.25) = NaN)"
proof -
  have e: "predictTrajectory low_history (Fin 1) (Fin 0.05) = Some
      [point 0 0.254715 20 0.1, point 0 0.544905 21 0.15, point 0 0.81057 22 0.2,
       point 0 1.05171 23 0.25]"
    by (simp add: low_history_def predictTrajectory_def point_def Let_def number_ops
        consts_defs predict_loop.simps predict_guard_def predict_body_def)
  with predictTrajectory_heights_nonnegative [of low_history "Fin 0.05" "Fin 1"
      "[point 0 0.254715 20 0.1, point 0 0.544905 21 0.15, point 0 0.81057 22 0.2,
        point 0 1.05171 23 0.25]"]
  have "\<forall>p\<in>set [point 0 0.254715 20 0.1, point 0 0.544905 21 0.15, point 0 0.81057 22 0.2,
       point 0 1.05171 23 0.25]. Fin 0 \<le> p_y p \<or> p_y p = NaN"
    by blast
  with e show ?thesis by simp
qed

end
